theory Spec2Isabelle
  imports Main "HOL-Library.Multiset" "HOL-Library.Sublist"
begin

section \<open>Data model\<close>

text \<open>
  A content item is the dictionary the course-material endpoint returns for an element of
  \<^verbatim>\<open>onDemandCourseMaterialItems.v2\<close>. The program reads three of its keys:
  \<^verbatim>\<open>item["id"]\<close>, \<^verbatim>\<open>item["name"]\<close> and
  \<^verbatim>\<open>item["contentSummary"]["typeName"]\<close>.
\<close>

record item =
  item_id :: string
  name :: string
  typeName :: string

text \<open>The dictionary built by \<^verbatim>\<open>get_video_metadata\<close>.\<close>

record metadata =
  can_skip :: bool
  tracking_id :: string

text \<open>
  A raised Python exception of class \<^verbatim>\<open>Exception\<close>, which is what the handlers of the
  program (\<^verbatim>\<open>except Exception\<close>, \<^verbatim>\<open>@logger.catch\<close>) catch; the string is what
  \<^verbatim>\<open>f"{e}"\<close> renders. A \<^verbatim>\<open>KeyboardInterrupt\<close> or another
  \<^verbatim>\<open>BaseException\<close> outside that class ends the process and is not a value of this
  type.
\<close>

datatype error = Exception string

text \<open>The loguru levels the program logs at.\<close>

datatype level = DEBUG | INFO | WARNING | ERROR

text \<open>
  What a run does that can be observed from outside: the log lines it writes and the calls
  it makes into its collaborators (metadata fetch, watcher, completion POST, solver), in the
  order in which they happen. A call event marks the start of the statement that makes the
  call, the evaluation of its arguments included. \<open>Caught e\<close> is the record that
  \<^verbatim>\<open>@logger.catch\<close> writes for an exception \<open>e\<close> that reaches it: level error,
  loguru's own message (\<^verbatim>\<open>An error has been caught in function ...\<close>, naming the
  function, the process and the thread) and the exception attached.
\<close>

datatype event =
    Log level string
  | GetVideoMetadata string
  | WatchItem item metadata
  | PostCompletion string
  | Solve string
  | Caught error

text \<open>
  A run is the trace of events together with how it ended: \<open>Inr v\<close> when the function
  returned \<open>v\<close>, \<open>Inl e\<close> when the exception \<open>e\<close> left it.
\<close>

type_synonym 'a run = "event list \<times> (error + 'a)"

text \<open>
  Sequencing of statements: the first run, then the second one (which may use the value of
  the first) unless the first one raised.
\<close>

fun bind_run :: "'a run \<Rightarrow> ('a \<Rightarrow> 'b run) \<Rightarrow> 'b run" where
  "bind_run (t, Inl e) f = (t, Inl e)"
| "bind_run (t, Inr v) f = (t @ fst (f v), snd (f v))"

definition then_run :: "unit run \<Rightarrow> 'b run \<Rightarrow> 'b run" where
  "then_run r1 r2 = bind_run r1 (\<lambda>u. r2)"

text \<open>A \<^verbatim>\<open>for x in xs:\<close> loop whose body is \<open>body x\<close>.\<close>

fun for_each :: "('a \<Rightarrow> unit run) \<Rightarrow> 'a list \<Rightarrow> unit run" where
  "for_each body [] = ([], Inr ())"
| "for_each body (x # xs) = then_run (body x) (for_each body xs)"

text \<open>
  The body of the JSON answer to \<^verbatim>\<open>adminUserPermissions.v1?q=my\<close>, as far as
  \<^verbatim>\<open>get_userid\<close> looks at it: either \<^verbatim>\<open>r["elements"][0]["id"]\<close> is there, or
  the lookup raises \<^verbatim>\<open>KeyError\<close> and \<^verbatim>\<open>r.get("errorCode")\<close> is read.
\<close>

datatype permissions = UserId string | NoUserId "string option"

text \<open>
  The part of the course-material answer that \<^verbatim>\<open>get_course\<close> reads, in the order
  in which it reads it: the course id \<^verbatim>\<open>r["elements"][0]["id"]\<close>, the number of linked
  modules \<^verbatim>\<open>len(r["linked"]["onDemandCourseMaterialModules.v1"])\<close> and the linked
  items \<^verbatim>\<open>r["linked"]["onDemandCourseMaterialItems.v2"]\<close>. The two lookups under
  \<^verbatim>\<open>linked\<close> are made after the course id has been logged, and each may raise.
\<close>

record course_materials =
  course_id :: string
  modules :: "error + nat"
  items :: "error + item list"

text \<open>
  The collaborators of the runner. Each is the outcome of one call: \<open>Inl e\<close> when the
  call raises \<open>e\<close>, \<open>Inr v\<close> when it returns \<open>v\<close>.
  \<^item> \<open>adminUserPermissions\<close>: the GET of \<^verbatim>\<open>get_userid\<close>;
  \<^item> \<open>onDemandCourseMaterials\<close>: the GET of \<^verbatim>\<open>get_course\<close> with
    \<^verbatim>\<open>r["elements"][0]["id"]\<close> decoded;
  \<^item> \<open>onDemandLectureVideos\<close>: the GET of \<^verbatim>\<open>get_video_metadata\<close> for an item id,
    with the two fields decoded;
  \<^item> \<open>watcher\<close>: \<^verbatim>\<open>Watcher(...).watch_item()\<close>;
  \<^item> \<open>onDemandSupplementCompletions\<close>: the POST of \<^verbatim>\<open>read_item\<close> for an item id
    (building its JSON body included), returning \<^verbatim>\<open>r.text\<close>;
  \<^item> \<open>solver\<close>: \<^verbatim>\<open>GradedSolver(session, course_id, item_id).solve()\<close>.
\<close>

record env =
  adminUserPermissions :: "error + permissions"
  onDemandCourseMaterials :: "error + course_materials"
  onDemandLectureVideos :: "string \<Rightarrow> error + metadata"
  watcher :: "item \<Rightarrow> metadata \<Rightarrow> error + unit"
  onDemandSupplementCompletions :: "string \<Rightarrow> error + string"
  solver :: "string \<Rightarrow> error + unit"

section \<open>Rendering helpers\<close>

text \<open>
  \<^verbatim>\<open>str(n)\<close> for a natural number: its decimal digits. \<open>digit_char\<close> is only
  applied to numbers below ten.
\<close>

definition digit_char :: "nat \<Rightarrow> char" where
  "digit_char d = ''0123456789'' ! d"

function str_nat :: "nat \<Rightarrow> string" where
  "str_nat n = (if n < 10 then [digit_char n] else str_nat (n div 10) @ [digit_char (n mod 10)])"
  by pat_completeness auto
termination
  by (relation "measure (\<lambda>n. n)") auto

declare str_nat.simps [simp del]

text \<open>\<^verbatim>\<open>needle in hay\<close> on Python strings: \<open>needle\<close> occurs as a contiguous run.\<close>

fun contains :: "string \<Rightarrow> string \<Rightarrow> bool" where
  "contains needle [] = (needle = [])"
| "contains needle (c # cs) = (prefix needle (c # cs) \<or> contains needle cs)"

section \<open>Classification (the loop at the head of \<^verbatim>\<open>get_course\<close>)\<close>

text \<open>
  The three lists the loop appends to, and the log lines it writes while doing so.
\<close>

record buckets =
  videos :: "item list"
  readings :: "item list"
  assessments :: "item list"
  logged :: "event list"

definition no_buckets :: buckets where
  "no_buckets = \<lparr>videos = [], readings = [], assessments = [], logged = []\<rparr>"

text \<open>One iteration of \<^verbatim>\<open>for item in r["linked"]["onDemandCourseMaterialItems.v2"]\<close>.\<close>

definition classify_item :: "bool \<Rightarrow> bool \<Rightarrow> buckets \<Rightarrow> item \<Rightarrow> buckets" where
  "classify_item llm eva b it =
    (if typeName it = ''lecture'' then
       (if \<not> eva then b\<lparr>videos := videos b @ [it]\<rparr>
        else b\<lparr>logged := logged b @
          [Log DEBUG (''Skipping video '' @ [CHR 0x27] @ name it @ [CHR 0x27]
                      @ '' (eva mode - only assessments)'')]\<rparr>)
     else if typeName it = ''supplement'' then
       (if \<not> eva then b\<lparr>readings := readings b @ [it]\<rparr>
        else b\<lparr>logged := logged b @
          [Log DEBUG (''Skipping reading '' @ [CHR 0x27] @ name it @ [CHR 0x27]
                      @ '' (eva mode - only assessments)'')]\<rparr>)
     else if typeName it \<in> set [''ungradedAssignment'', ''staffGraded''] then
       (if llm \<or> eva then b\<lparr>assessments := assessments b @ [it]\<rparr>
        else if typeName it = ''ungradedAssignment'' then
          b\<lparr>logged := logged b @ [Log INFO ''Skipping ungraded assignment!'']\<rparr>
        else b)
     else b)"

definition classify :: "bool \<Rightarrow> bool \<Rightarrow> item list \<Rightarrow> buckets" where
  "classify llm eva its = foldl (classify_item llm eva) no_buckets its"

section \<open>The runners\<close>

definition get_video_metadata :: "env \<Rightarrow> string \<Rightarrow> metadata run" where
  "get_video_metadata env i = ([GetVideoMetadata i], onDemandLectureVideos env i)"

definition watch_item :: "env \<Rightarrow> item \<Rightarrow> metadata \<Rightarrow> unit run" where
  "watch_item env it m = ([WatchItem it m], watcher env it m)"

text \<open>
  The body of the sequential loop:
  \<^verbatim>\<open>logger.info(item["name"]); self.watch_item(item, self.get_video_metadata(item["id"]))\<close>.
  Nothing in it catches an exception.
\<close>

definition watch_sequential :: "env \<Rightarrow> item \<Rightarrow> unit run" where
  "watch_sequential env it =
     then_run ([Log INFO (name it)], Inr ())
       (bind_run (get_video_metadata env (item_id it)) (watch_item env it))"

text \<open>
  \<^verbatim>\<open>_process_video\<close>: the \<^verbatim>\<open>try\<close> block, and the function with its
  \<^verbatim>\<open>except Exception as e\<close> handler, which turns every exception into a log line.
\<close>

definition process_video_try :: "env \<Rightarrow> item \<Rightarrow> unit run" where
  "process_video_try env it =
     then_run (bind_run (get_video_metadata env (item_id it)) (watch_item env it))
       ([Log INFO (''Completed: '' @ name it)], Inr ())"

definition process_video :: "env \<Rightarrow> item \<Rightarrow> event list" where
  "process_video env it =
     Log INFO (''Starting: '' @ name it) #
     (case process_video_try env it of
        (t, Inl (Exception msg)) \<Rightarrow>
          t @ [Log ERROR (''Failed to process '' @ name it @ '': '' @ msg)]
      | (t, Inr u) \<Rightarrow> t)"

text \<open>
  The worker pool runs the submitted calls concurrently. Each worker writes its own events
  in its own order; the events of different workers may fall in any order. The possible
  traces of the pool are the interleavings of the workers' traces (the pool's cap rules some
  of them out, none in).
\<close>

fun interleavings :: "'a list list \<Rightarrow> 'a list set" where
  "interleavings [] = {[]}"
| "interleavings (t # ts) = (\<Union>r \<in> interleavings ts. shuffles t r)"

text \<open>
  The video phase. In the parallel branch \<^verbatim>\<open>future.result()\<close> returns what
  \<^verbatim>\<open>_process_video\<close> returned, which never raises, so the handler around it logs
  nothing; leaving the \<^verbatim>\<open>with\<close> block waits for every worker.
\<close>

definition video_phase :: "env \<Rightarrow> bool \<Rightarrow> item list \<Rightarrow> unit run set" where
  "video_phase env par vs =
     (if vs \<noteq> [] \<and> par then
        (\<lambda>t. (Log INFO (''Processing '' @ str_nat (length vs)
                         @ '' videos in parallel (max 30 at a time)...'') # t, Inr ()))
          ` interleavings (map (process_video env) vs)
      else if vs \<noteq> [] then {for_each (watch_sequential env) vs}
      else {([], Inr ())})"

text \<open>\<^verbatim>\<open>read_item\<close>.\<close>

definition read_item :: "env \<Rightarrow> string \<Rightarrow> unit run" where
  "read_item env i =
     bind_run ([PostCompletion i], onDemandSupplementCompletions env i)
       (\<lambda>text. if \<not> contains ''Completed'' text
               then ([Log DEBUG (''Couldn'' @ [CHR 0x27] @ ''t read item!'')], Inr ())
               else ([], Inr ()))"

text \<open>The body of \<^verbatim>\<open>for item in readings\<close>.\<close>

definition read_reading :: "env \<Rightarrow> item \<Rightarrow> unit run" where
  "read_reading env it = read_item env (item_id it)"

text \<open>The body of \<^verbatim>\<open>for item in assessments\<close>.\<close>

definition solve_assessment :: "env \<Rightarrow> item \<Rightarrow> unit run" where
  "solve_assessment env it =
     (if typeName it = ''ungradedAssignment'' then
        then_run ([Log INFO ''Attempting to solve ungraded assessment..''], Inr ())
          ([Solve (item_id it)], solver env (item_id it))
      else if typeName it = ''staffGraded'' then
        then_run ([Log INFO ''Attempting to solve graded assessment..''], Inr ())
          ([Solve (item_id it)], solver env (item_id it))
      else ([], Inr ()))"

text \<open>
  \<^verbatim>\<open>get_course\<close> from the classification loop on: the loop, the video phase, the
  readings, the assessments.
\<close>

definition process_items :: "env \<Rightarrow> bool \<Rightarrow> bool \<Rightarrow> bool \<Rightarrow> item list \<Rightarrow> unit run set" where
  "process_items env llm eva par its =
     (let b = classify llm eva its in
      (\<lambda>v. then_run (logged b, Inr ())
             (then_run v
               (then_run (for_each (read_reading env) (readings b))
                 (for_each (solve_assessment env) (assessments b)))))
        ` video_phase env par (videos b))"

text \<open>
  The log lines at the head of \<^verbatim>\<open>get_course\<close>, up to the classification loop: the
  course id, then the number of modules (whose lookup may raise), then the debug line.
\<close>

definition course_header :: "course_materials \<Rightarrow> unit run" where
  "course_header r =
     then_run ([Log INFO (''Course ID: '' @ course_id r)], Inr ())
       (bind_run ([], modules r)
          (\<lambda>n. ([Log INFO (''Number of Modules: '' @ str_nat n),
                  Log DEBUG ''Processing items..''], Inr ())))"

definition get_course :: "env \<Rightarrow> bool \<Rightarrow> bool \<Rightarrow> bool \<Rightarrow> unit run set" where
  "get_course env llm eva par =
     (case onDemandCourseMaterials env of
        Inl e \<Rightarrow> {([], Inl e)}
      | Inr r \<Rightarrow>
          (case items r of
             Inl e \<Rightarrow> {then_run (course_header r) ([], Inl e)}
           | Inr its \<Rightarrow> then_run (course_header r) ` process_items env llm eva par its))"

section \<open>Start-up and the command line\<close>

text \<open>\<^verbatim>\<open>get_userid\<close>; an empty \<^verbatim>\<open>errorCode\<close> is falsy and logs nothing.\<close>

definition get_userid :: "env \<Rightarrow> bool run" where
  "get_userid env =
     (case adminUserPermissions env of
        Inl e \<Rightarrow> ([], Inl e)
      | Inr (UserId u) \<Rightarrow> ([Log INFO (''User ID: '' @ u)], Inr True)
      | Inr (NoUserId c) \<Rightarrow>
          ((case c of
              Some code \<Rightarrow> if code \<noteq> [] then [Log ERROR (''Error Encountered: '' @ code)] else []
            | None \<Rightarrow> []), Inr False))"

text \<open>\<^verbatim>\<open>login\<close> raises \<^verbatim>\<open>NotImplementedError()\<close>, whose text is empty.\<close>

definition login :: "unit run" where
  "login = ([], Inl (Exception []))"

text \<open>\<^verbatim>\<open>Skipera.__init__\<close>.\<close>

definition init :: "env \<Rightarrow> unit run" where
  "init env = bind_run (get_userid env) (\<lambda>ok. if \<not> ok then login else ([], Inr ()))"

text \<open>
  The two flag adjustments at the head of \<^verbatim>\<open>main\<close>: the warnings written and the
  values of \<^verbatim>\<open>llm\<close>, \<^verbatim>\<open>eva\<close> and \<^verbatim>\<open>parallel\<close> that the run is started with.
\<close>

definition main_flags :: "bool \<Rightarrow> bool \<Rightarrow> bool \<Rightarrow> event list \<times> bool \<times> bool \<times> bool" where
  "main_flags llm eva par =
     (let (w1, llm1) =
            (if eva \<and> llm then
               ([Log WARNING
                   ''Both --llm and --eva flags provided. Using --eva mode (assessments only).''],
                False)
             else ([], llm));
          (w2, par1) =
            (if par \<and> eva then
               ([Log WARNING
                   ''--parallel flag ignored in --eva mode (no videos to process).''],
                False)
             else ([], par))
      in (w1 @ w2, llm1, eva, par1))"

text \<open>
  \<^verbatim>\<open>@logger.catch\<close> around \<^verbatim>\<open>main\<close>: an exception that reaches it is written to
  the log as one record and the call returns.
\<close>

fun logger_catch :: "unit run \<Rightarrow> event list" where
  "logger_catch (t, Inl e) = t @ [Caught e]"
| "logger_catch (t, Inr u) = t"

definition main :: "env \<Rightarrow> bool \<Rightarrow> bool \<Rightarrow> bool \<Rightarrow> event list set" where
  "main env llm eva par =
     (case main_flags llm eva par of
        (w, llm1, eva1, par1) \<Rightarrow>
          (\<lambda>r. logger_catch (then_run (w, Inr ()) (then_run (init env) r)))
            ` get_course env llm1 eva1 par1)"

section \<open>Reading a trace\<close>

text \<open>The log lines of a trace, and the collaborator calls of a trace.\<close>

fun is_log :: "event \<Rightarrow> bool" where
  "is_log (Log l m) = True"
| "is_log (Caught e) = True"
| "is_log e = False"

definition calls :: "event list \<Rightarrow> event list" where
  "calls t = filter (\<lambda>e. \<not> is_log e) t"

definition logs :: "event list \<Rightarrow> event list" where
  "logs t = filter is_log t"

text \<open>The log lines that start with \<^verbatim>\<open>Completed: \<close>.\<close>

fun is_completed_entry :: "event \<Rightarrow> bool" where
  "is_completed_entry (Log l m) = prefix ''Completed: '' m"
| "is_completed_entry e = False"

definition completed_entries :: "event list \<Rightarrow> event list" where
  "completed_entries t = filter is_completed_entry t"

section \<open>Example inputs\<close>

definition lecture_A :: item where
  "lecture_A = \<lparr>item_id = ''v1'', name = ''Intro'', typeName = ''lecture''\<rparr>"

definition lecture_B :: item where
  "lecture_B = \<lparr>item_id = ''v2'', name = ''Basics'', typeName = ''lecture''\<rparr>"

definition reading_A :: item where
  "reading_A = \<lparr>item_id = ''r1'', name = ''Syllabus'', typeName = ''supplement''\<rparr>"

definition reading_B :: item where
  "reading_B = \<lparr>item_id = ''r2'', name = ''Notes'', typeName = ''supplement''\<rparr>"

definition quiz_A :: item where
  "quiz_A = \<lparr>item_id = ''q1'', name = ''Quiz 1'', typeName = ''ungradedAssignment''\<rparr>"

definition quiz_B :: item where
  "quiz_B = \<lparr>item_id = ''q2'', name = ''Quiz 2'', typeName = ''staffGraded''\<rparr>"

definition other_A :: item where
  "other_A = \<lparr>item_id = ''x1'', name = ''Forum'', typeName = ''discussionPrompt''\<rparr>"

definition meta_A :: metadata where
  "meta_A = \<lparr>can_skip = True, tracking_id = ''t1''\<rparr>"

definition course_A :: course_materials where
  "course_A =
     \<lparr>course_id = ''c1'', modules = Inr 1,
      items = Inr [lecture_A, lecture_B, reading_A, quiz_B, quiz_A, quiz_B]\<rparr>"

text \<open>Every collaborator answers; the completion POST answers with the marker.\<close>

definition env_ok :: env where
  "env_ok =
     \<lparr>adminUserPermissions = Inr (UserId ''42''),
      onDemandCourseMaterials = Inr course_A,
      onDemandLectureVideos = (\<lambda>i. Inr meta_A),
      watcher = (\<lambda>it m. Inr ()),
      onDemandSupplementCompletions = (\<lambda>i. Inr ''status: Completed''),
      solver = (\<lambda>i. Inr ())\<rparr>"

text \<open>The metadata fetch of the first lecture raises.\<close>

definition env_metadata_fails :: env where
  "env_metadata_fails =
     env_ok\<lparr>onDemandLectureVideos :=
               (\<lambda>i. if i = ''v1'' then Inl (Exception ''timeout'') else Inr meta_A)\<rparr>"


text \<open>The completion POST answers without the marker.\<close>

definition env_not_completed :: env where
  "env_not_completed = env_ok\<lparr>onDemandSupplementCompletions := (\<lambda>i. Inr ''Forbidden'')\<rparr>"

section \<open>Sequencing and rendering: basic facts\<close>

lemma contains_sublist: "contains needle hay \<longleftrightarrow> sublist needle hay"
  by (induction hay) (simp_all add: sublist_Cons_right)

lemma then_run_ok [simp]: "then_run (t, Inr ()) r = (t @ fst r, snd r)"
  by (simp add: then_run_def)

lemma then_run_raise [simp]: "then_run (t, Inl e) r = (t, Inl e)"
  by (simp add: then_run_def)

lemma then_run_eq:
  "then_run r1 r2 = (case snd r1 of Inl e \<Rightarrow> (fst r1, Inl e) | Inr u \<Rightarrow> (fst r1 @ fst r2, snd r2))"
proof (cases r1)
  case (Pair t r)
  then show ?thesis by (cases r) (simp_all add: then_run_def)
qed




lemma then_run_raises:
  "snd r2 \<noteq> Inr () \<Longrightarrow> snd (then_run r1 r2) \<noteq> Inr ()"
  by (auto simp: then_run_eq split: sum.splits)

lemma str_nat_digit: "n < 10 \<Longrightarrow> str_nat n = [digit_char n]"
  by (simp add: str_nat.simps)


lemma mset_interleavings: "t \<in> interleavings ts \<Longrightarrow> mset t = mset (concat ts)"
  by (induction ts arbitrary: t) (auto simp: mset_shuffles)

section \<open>Classification: properties\<close>

lemma classify_item_videos:
  "videos (classify_item llm eva b it) =
     videos b @ (if typeName it = ''lecture'' \<and> \<not> eva then [it] else [])"
  by (simp add: classify_item_def)

lemma classify_item_readings:
  "readings (classify_item llm eva b it) =
     readings b @ (if typeName it = ''supplement'' \<and> \<not> eva then [it] else [])"
  by (simp add: classify_item_def)

lemma classify_item_assessments:
  "assessments (classify_item llm eva b it) =
     assessments b @
       (if (typeName it = ''ungradedAssignment'' \<or> typeName it = ''staffGraded'') \<and> (llm \<or> eva)
        then [it] else [])"
  by (simp add: classify_item_def)

lemma foldl_videos:
  "videos (foldl (classify_item llm eva) b its) =
     videos b @ filter (\<lambda>it. typeName it = ''lecture'' \<and> \<not> eva) its"
  by (induction its arbitrary: b) (simp_all add: classify_item_videos)

lemma foldl_readings:
  "readings (foldl (classify_item llm eva) b its) =
     readings b @ filter (\<lambda>it. typeName it = ''supplement'' \<and> \<not> eva) its"
  by (induction its arbitrary: b) (simp_all add: classify_item_readings)

lemma foldl_assessments:
  "assessments (foldl (classify_item llm eva) b its) =
     assessments b @
       filter (\<lambda>it. (typeName it = ''ungradedAssignment'' \<or> typeName it = ''staffGraded'')
                     \<and> (llm \<or> eva)) its"
  by (induction its arbitrary: b) (simp_all add: classify_item_assessments)

lemma videos_classify:
  "videos (classify llm eva its) = filter (\<lambda>it. typeName it = ''lecture'' \<and> \<not> eva) its"
  by (simp add: classify_def foldl_videos no_buckets_def)

lemma readings_classify:
  "readings (classify llm eva its) = filter (\<lambda>it. typeName it = ''supplement'' \<and> \<not> eva) its"
  by (simp add: classify_def foldl_readings no_buckets_def)

lemma assessments_classify:
  "assessments (classify llm eva its) =
     filter (\<lambda>it. (typeName it = ''ungradedAssignment'' \<or> typeName it = ''staffGraded'')
                   \<and> (llm \<or> eva)) its"
  by (simp add: classify_def foldl_assessments no_buckets_def)

lemma count_list_filter:
  "count_list (filter P xs) x = (if P x then count_list xs x else 0)"
  by (induction xs) auto

lemma classify_item_logged_skip:
  "count_list (logged (classify_item False False b it))
       (Log INFO ''Skipping ungraded assignment!'') =
     count_list (logged b) (Log INFO ''Skipping ungraded assignment!'')
       + (if typeName it = ''ungradedAssignment'' then 1 else 0)"
  by (simp add: classify_item_def)

lemma foldl_logged_skip:
  "count_list (logged (foldl (classify_item False False) b its))
       (Log INFO ''Skipping ungraded assignment!'') =
     count_list (logged b) (Log INFO ''Skipping ungraded assignment!'')
       + length (filter (\<lambda>it. typeName it = ''ungradedAssignment'') its)"
  by (induction its arbitrary: b) (simp_all add: classify_item_logged_skip)

text \<open>
  Claim C5. With \<open>eva\<close> set, whatever the items and whatever \<open>llm\<close>, classification
  leaves the videos bucket and the readings bucket empty.
\<close>

theorem eva_empties_videos_and_readings:
  "videos (classify llm True its) = [] \<and> readings (classify llm True its) = []"
  by (simp add: videos_classify readings_classify)

text \<open>
  Claim C6. An item of the input tagged \<open>ungradedAssignment\<close> is in the assessments bucket
  exactly when \<open>llm\<close> or \<open>eva\<close> is set, and it is never in another bucket. When neither is
  set it is dropped with the note \<open>Skipping ungraded assignment!\<close>: the log holds one such
  line for each ungraded assignment of the input.
\<close>

theorem ungraded_in_assessments_iff:
  assumes "it \<in> set its" and "typeName it = ''ungradedAssignment''"
  shows "(it \<in> set (assessments (classify llm eva its)) \<longleftrightarrow> llm \<or> eva)
       \<and> it \<notin> set (videos (classify llm eva its))
       \<and> it \<notin> set (readings (classify llm eva its))
       \<and> (\<not> llm \<and> \<not> eva \<longrightarrow>
            count_list (logged (classify llm eva its)) (Log INFO ''Skipping ungraded assignment!'')
              = length (filter (\<lambda>i. typeName i = ''ungradedAssignment'') its)
            \<and> Log INFO ''Skipping ungraded assignment!'' \<in> set (logged (classify llm eva its)))"
proof -
  let ?note = "Log INFO ''Skipping ungraded assignment!''"
  have a: "it \<in> set (assessments (classify llm eva its)) \<longleftrightarrow> llm \<or> eva"
    using assms by (auto simp: assessments_classify)
  have v: "it \<notin> set (videos (classify llm eva its))"
    using assms by (simp add: videos_classify)
  have r: "it \<notin> set (readings (classify llm eva its))"
    using assms by (simp add: readings_classify)
  have n: "count_list (logged (classify False False its)) ?note
             = length (filter (\<lambda>i. typeName i = ''ungradedAssignment'') its)"
    by (simp add: classify_def foldl_logged_skip no_buckets_def)
  have "filter (\<lambda>i. typeName i = ''ungradedAssignment'') its \<noteq> []"
    using assms by (auto simp: filter_empty_conv)
  then have "0 < count_list (logged (classify False False its)) ?note"
    using n by simp
  then have m: "?note \<in> set (logged (classify False False its))"
    using count_list_0_iff [of "logged (classify False False its)" ?note] by auto
  show ?thesis using a v r n m by auto
qed

theorem ungraded_in_assessments_iff_witness:
  "quiz_A \<in> set [quiz_A] \<and> typeName quiz_A = ''ungradedAssignment''
   \<and> quiz_A \<in> set (assessments (classify True False [quiz_A]))
   \<and> quiz_A \<notin> set (assessments (classify False False [quiz_A]))
   \<and> Log INFO ''Skipping ungraded assignment!'' \<in> set (logged (classify False False [quiz_A]))"
  using ungraded_in_assessments_iff [of quiz_A "[quiz_A]" True False]
        ungraded_in_assessments_iff [of quiz_A "[quiz_A]" False False]
  by (simp add: quiz_A_def)

text \<open>
  Claim C8. Whatever the items and the mode, no item is in two buckets: the buckets are
  pairwise disjoint, and an item is in the three buckets together at most as often as it is
  in the input. An item whose tag is none of \<open>lecture\<close>, \<open>supplement\<close>,
  \<open>ungradedAssignment\<close>, \<open>staffGraded\<close> is in no bucket.
\<close>

theorem classify_at_most_one_bucket:
  "set (videos (classify llm eva its)) \<inter> set (readings (classify llm eva its)) = {}
   \<and> set (videos (classify llm eva its)) \<inter> set (assessments (classify llm eva its)) = {}
   \<and> set (readings (classify llm eva its)) \<inter> set (assessments (classify llm eva its)) = {}
   \<and> count_list (videos (classify llm eva its)) it
       + count_list (readings (classify llm eva its)) it
       + count_list (assessments (classify llm eva its)) it \<le> count_list its it
   \<and> (typeName it \<noteq> ''lecture'' \<and> typeName it \<noteq> ''supplement''
        \<and> typeName it \<noteq> ''ungradedAssignment'' \<and> typeName it \<noteq> ''staffGraded'' \<longrightarrow>
        it \<notin> set (videos (classify llm eva its))
        \<and> it \<notin> set (readings (classify llm eva its))
        \<and> it \<notin> set (assessments (classify llm eva its)))"
  by (auto simp: videos_classify readings_classify assessments_classify count_list_filter)

theorem classify_at_most_one_bucket_witness:
  "typeName other_A \<noteq> ''lecture'' \<and> typeName other_A \<noteq> ''supplement''
   \<and> typeName other_A \<noteq> ''ungradedAssignment'' \<and> typeName other_A \<noteq> ''staffGraded''
   \<and> other_A \<notin> set (videos (classify True False [quiz_A, other_A]))
   \<and> other_A \<notin> set (readings (classify True False [quiz_A, other_A]))
   \<and> other_A \<notin> set (assessments (classify True False [quiz_A, other_A]))"
  using classify_at_most_one_bucket [of True False "[quiz_A, other_A]" other_A]
  by (simp add: other_A_def)

section \<open>The command-line flags: properties\<close>

lemma classify_item_llm_eva:
  "classify_item True True = classify_item False True"
  by (intro ext) (simp add: classify_item_def)

lemma logger_catch_warning:
  "logger_catch (then_run (w # ws, Inr ()) r) = w # logger_catch (then_run (ws, Inr ()) r)"
  by (cases r rule: logger_catch.cases) (simp_all add: then_run_def)

text \<open>
  Claim C7. Asking for \<open>llm\<close> and \<open>eva\<close> together is the same as asking for \<open>eva\<close>
  alone: \<^verbatim>\<open>main\<close> starts the run with the same flags, after one more warning, and even
  with both flags set the classification, the processing and so \<^verbatim>\<open>get_course\<close> are
  those of \<open>eva\<close> alone. The runs of \<^verbatim>\<open>main\<close> are the same but for that warning at
  their head.
\<close>

theorem llm_and_eva_is_eva:
  "snd (main_flags True True par) = snd (main_flags False True par)
   \<and> fst (main_flags True True par) =
       Log WARNING ''Both --llm and --eva flags provided. Using --eva mode (assessments only).''
         # fst (main_flags False True par)
   \<and> classify True True its = classify False True its
   \<and> process_items env True True par its = process_items env False True par its
   \<and> get_course env True True par = get_course env False True par
   \<and> main env True True par =
       (#) (Log WARNING
              ''Both --llm and --eva flags provided. Using --eva mode (assessments only).'')
         ` main env False True par"
proof -
  have c: "\<And>its. classify True True its = classify False True its"
    by (simp add: classify_def classify_item_llm_eva)
  have p: "\<And>its. process_items env True True par its = process_items env False True par its"
    by (simp add: process_items_def c)
  have g: "get_course env True True par = get_course env False True par"
    by (simp add: get_course_def p split: sum.splits)
  have m: "main env True True par =
       (#) (Log WARNING
              ''Both --llm and --eva flags provided. Using --eva mode (assessments only).'')
         ` main env False True par"
    by (simp add: main_def main_flags_def logger_catch_warning image_image
          del: then_run_ok then_run_raise)
  show ?thesis using c p g m by (simp add: main_flags_def)
qed


section \<open>The reading runner: properties\<close>

text \<open>
  Claim C4. When the completion POST for a reading returns a body without the marker
  \<open>Completed\<close>, \<^verbatim>\<open>read_item\<close> writes the debug line and returns; the loop over
  the readings goes on with the next reading.
\<close>

theorem read_item_soft_failure:
  assumes "onDemandSupplementCompletions env (item_id it) = Inr body"
      and "\<not> contains ''Completed'' body"
  shows "read_item env (item_id it) =
           ([PostCompletion (item_id it),
             Log DEBUG (''Couldn'' @ [CHR 0x27] @ ''t read item!'')], Inr ())
       \<and> for_each (read_reading env) (it # rest) =
           (PostCompletion (item_id it)
              # Log DEBUG (''Couldn'' @ [CHR 0x27] @ ''t read item!'')
              # fst (for_each (read_reading env) rest),
            snd (for_each (read_reading env) rest))"
  using assms by (simp add: read_item_def read_reading_def)

theorem read_item_soft_failure_witness:
  "onDemandSupplementCompletions env_not_completed (item_id reading_A) = Inr ''Forbidden''
   \<and> \<not> contains ''Completed'' ''Forbidden''
   \<and> for_each (read_reading env_not_completed) [reading_A, reading_B] =
       ([PostCompletion ''r1'', Log DEBUG (''Couldn'' @ [CHR 0x27] @ ''t read item!''),
         PostCompletion ''r2'', Log DEBUG (''Couldn'' @ [CHR 0x27] @ ''t read item!'')], Inr ())"
  using read_item_soft_failure [of env_not_completed reading_A "''Forbidden''" "[reading_B]"]
        read_item_soft_failure [of env_not_completed reading_B "''Forbidden''" "[]"]
  by (simp add: env_not_completed_def env_ok_def reading_A_def reading_B_def)

section \<open>The video runner: properties\<close>

lemma process_video_attempts: "GetVideoMetadata (item_id v) \<in> set (process_video env v)"
proof (cases "onDemandLectureVideos env (item_id v)")
  case (Inl e)
  then show ?thesis
    by (cases e) (simp add: process_video_def process_video_try_def get_video_metadata_def)
next
  case (Inr m)
  show ?thesis
  proof (cases "watcher env v m")
    case (Inl e)
    with Inr show ?thesis
      by (cases e)
        (simp add: process_video_def process_video_try_def get_video_metadata_def
           watch_item_def)
  next
    case Inr2: (Inr u)
    with Inr show ?thesis
      by (simp add: process_video_def process_video_try_def get_video_metadata_def
            watch_item_def)
  qed
qed

text \<open>
  The parallel branch isolates failures: whatever exception of class
  \<^verbatim>\<open>Exception\<close> the collaborators raise, the phase returns and the metadata of every
  submitted video has been asked for.
\<close>

lemma parallel_failure_isolated:
  assumes "r \<in> video_phase env True vs" and "v \<in> set vs"
  shows "snd r = Inr () \<and> GetVideoMetadata (item_id v) \<in> set (fst r)"
proof -
  have "vs \<noteq> []" using assms(2) by auto
  with assms(1) obtain t where t: "t \<in> interleavings (map (process_video env) vs)"
    and r: "r = (Log INFO (''Processing '' @ str_nat (length vs)
                         @ '' videos in parallel (max 30 at a time)...'') # t, Inr ())"
    by (auto simp: video_phase_def)
  have "set t = set (concat (map (process_video env) vs))"
    using mset_interleavings [OF t] by (metis set_mset_mset)
  then have "GetVideoMetadata (item_id v) \<in> set t"
    using assms(2) process_video_attempts [of v env] by auto
  with r show ?thesis by simp
qed

text \<open>
  Claim C1. The sequential branch does not isolate a failure. With two lectures and a
  reading, sequential mode, and a metadata fetch that raises on the first lecture, the run
  ends with that exception after two events: the second lecture and the reading are never
  attempted.
\<close>

theorem sequential_video_failure_aborts_run:
  "process_items env_metadata_fails False False False [lecture_A, lecture_B, reading_A] =
     {([Log INFO ''Intro'', GetVideoMetadata ''v1''], Inl (Exception ''timeout''))}"
  by (simp add: process_items_def classify_def classify_item_def no_buckets_def video_phase_def
        watch_sequential_def get_video_metadata_def env_metadata_fails_def env_ok_def
        lecture_A_def lecture_B_def reading_A_def Let_def)

lemma watch_sequential_ok:
  assumes "onDemandLectureVideos env (item_id v) = Inr m" and "watcher env v m = Inr ()"
  shows "watch_sequential env v =
           ([Log INFO (name v), GetVideoMetadata (item_id v), WatchItem v m], Inr ())"
  using assms by (simp add: watch_sequential_def get_video_metadata_def watch_item_def)

lemma process_video_ok:
  assumes "onDemandLectureVideos env (item_id v) = Inr m" and "watcher env v m = Inr ()"
  shows "process_video env v =
           [Log INFO (''Starting: '' @ name v), GetVideoMetadata (item_id v), WatchItem v m,
            Log INFO (''Completed: '' @ name v)]"
  using assms
  by (simp add: process_video_def process_video_try_def get_video_metadata_def watch_item_def)

lemma sequential_all_ok:
  assumes "\<forall>v \<in> set vs. onDemandLectureVideos env (item_id v) = Inr (meta v)
                        \<and> watcher env v (meta v) = Inr ()"
  shows "for_each (watch_sequential env) vs =
           (concat (map (\<lambda>v. [Log INFO (name v), GetVideoMetadata (item_id v),
                               WatchItem v (meta v)]) vs), Inr ())"
  using assms by (induction vs) (simp_all add: watch_sequential_ok)

lemma parallel_all_ok:
  assumes "\<forall>v \<in> set vs. onDemandLectureVideos env (item_id v) = Inr (meta v)
                        \<and> watcher env v (meta v) = Inr ()"
  shows "map (process_video env) vs =
           map (\<lambda>v. [Log INFO (''Starting: '' @ name v), GetVideoMetadata (item_id v),
                      WatchItem v (meta v), Log INFO (''Completed: '' @ name v)]) vs"
  using assms by (simp add: process_video_ok)

lemma calls_concat_seq:
  "calls (concat (map (\<lambda>v. [Log INFO (name v), GetVideoMetadata (item_id v),
                               WatchItem v (meta v)]) vs)) =
     concat (map (\<lambda>v. [GetVideoMetadata (item_id v), WatchItem v (meta v)]) vs)"
  by (induction vs) (simp_all add: calls_def)

lemma logs_concat_seq:
  "logs (concat (map (\<lambda>v. [Log INFO (name v), GetVideoMetadata (item_id v),
                               WatchItem v (meta v)]) vs)) =
     map (\<lambda>v. Log INFO (name v)) vs"
  by (induction vs) (simp_all add: logs_def)

lemma calls_concat_par:
  "calls (concat (map (\<lambda>v. [Log INFO (''Starting: '' @ name v), GetVideoMetadata (item_id v),
                      WatchItem v (meta v), Log INFO (''Completed: '' @ name v)]) vs)) =
     concat (map (\<lambda>v. [GetVideoMetadata (item_id v), WatchItem v (meta v)]) vs)"
  by (induction vs) (simp_all add: calls_def)

lemma completed_concat_par:
  "completed_entries (concat (map (\<lambda>v. [Log INFO (''Starting: '' @ name v), GetVideoMetadata (item_id v),
                      WatchItem v (meta v), Log INFO (''Completed: '' @ name v)]) vs)) =
     map (\<lambda>v. Log INFO (''Completed: '' @ name v)) vs"
  by (induction vs) (simp_all add: completed_entries_def)

text \<open>
  Claim C3, as the code has it. With a non-empty video list and no failing collaborator call,
  both modes return, and they make the same metadata and watcher calls (the sequential mode
  in input order, the parallel mode in some order). Their logs differ: the parallel mode
  writes one \<open>Completed: name\<close> line for each video, the sequential mode writes only the
  bare name of each video.
\<close>

theorem parallel_sequential_same_calls:
  assumes ok: "\<forall>v \<in> set vs. onDemandLectureVideos env (item_id v) = Inr (meta v)
                        \<and> watcher env v (meta v) = Inr ()"
      and p: "p \<in> video_phase env True vs"
      and s: "s \<in> video_phase env False vs"
      and ne: "vs \<noteq> []"
  shows "snd p = Inr () \<and> snd s = Inr ()
       \<and> calls (fst s) = concat (map (\<lambda>v. [GetVideoMetadata (item_id v), WatchItem v (meta v)]) vs)
       \<and> mset (calls (fst p)) = mset (calls (fst s))
       \<and> mset (completed_entries (fst p)) = mset (map (\<lambda>v. Log INFO (''Completed: '' @ name v)) vs)
       \<and> logs (fst s) = map (\<lambda>v. Log INFO (name v)) vs"
proof -
  let ?seq = "concat (map (\<lambda>v. [Log INFO (name v), GetVideoMetadata (item_id v),
                               WatchItem v (meta v)]) vs)"
  let ?par = "concat (map (\<lambda>v. [Log INFO (''Starting: '' @ name v), GetVideoMetadata (item_id v),
                      WatchItem v (meta v), Log INFO (''Completed: '' @ name v)]) vs)"
  have s_eq: "s = (?seq, Inr ())"
    using s ne sequential_all_ok [OF ok] by (simp add: video_phase_def)
  obtain t where t: "t \<in> interleavings (map (process_video env) vs)"
    and p_eq: "p = (Log INFO (''Processing '' @ str_nat (length vs)
                         @ '' videos in parallel (max 30 at a time)...'') # t, Inr ())"
    using p ne by (auto simp: video_phase_def)
  have mt: "mset t = mset ?par"
    using mset_interleavings [OF t] parallel_all_ok [OF ok] by simp
  have cs: "calls (fst s) = concat (map (\<lambda>v. [GetVideoMetadata (item_id v), WatchItem v (meta v)]) vs)"
    using s_eq by (simp add: calls_concat_seq)
  have c1: "mset (calls t) = mset (calls ?par)"
    using mt by (simp add: calls_def)
  have c2: "calls (fst p) = calls t"
    using p_eq by (simp add: calls_def)
  have cp: "mset (calls (fst p)) = mset (calls (fst s))"
    using c1 c2 cs calls_concat_par [of meta vs] by simp
  have e1: "mset (completed_entries t) = mset (completed_entries ?par)"
    using mt by (simp add: completed_entries_def)
  have e2: "completed_entries (fst p) = completed_entries t"
    using p_eq by (simp add: completed_entries_def)
  have ce: "mset (completed_entries (fst p)) =
              mset (map (\<lambda>v. Log INFO (''Completed: '' @ name v)) vs)"
    using e1 e2 completed_concat_par [of meta vs] by simp
  have ls: "logs (fst s) = map (\<lambda>v. Log INFO (name v)) vs"
    using s_eq by (simp add: logs_concat_seq)
  show ?thesis using s_eq p_eq cs cp ce ls by simp
qed

theorem parallel_sequential_same_calls_witness:
  "([Log INFO ''Processing 2 videos in parallel (max 30 at a time)...'',
     Log INFO ''Starting: Intro'', Log INFO ''Starting: Basics'',
     GetVideoMetadata ''v2'', GetVideoMetadata ''v1'',
     WatchItem lecture_B meta_A, Log INFO ''Completed: Basics'',
     WatchItem lecture_A meta_A, Log INFO ''Completed: Intro''], Inr ())
     \<in> video_phase env_ok True [lecture_A, lecture_B]
   \<and> for_each (watch_sequential env_ok) [lecture_A, lecture_B]
     \<in> video_phase env_ok False [lecture_A, lecture_B]
   \<and> calls (fst (for_each (watch_sequential env_ok) [lecture_A, lecture_B])) =
       [GetVideoMetadata ''v1'', WatchItem lecture_A meta_A,
        GetVideoMetadata ''v2'', WatchItem lecture_B meta_A]
   \<and> logs (fst (for_each (watch_sequential env_ok) [lecture_A, lecture_B])) =
       [Log INFO ''Intro'', Log INFO ''Basics'']
   \<and> mset (completed_entries
        [Log INFO ''Processing 2 videos in parallel (max 30 at a time)...'',
         Log INFO ''Starting: Intro'', Log INFO ''Starting: Basics'',
         GetVideoMetadata ''v2'', GetVideoMetadata ''v1'',
         WatchItem lecture_B meta_A, Log INFO ''Completed: Basics'',
         WatchItem lecture_A meta_A, Log INFO ''Completed: Intro'']) =
       mset [Log INFO ''Completed: Intro'', Log INFO ''Completed: Basics'']"
proof -
  let ?p = "([Log INFO ''Processing 2 videos in parallel (max 30 at a time)...'',
     Log INFO ''Starting: Intro'', Log INFO ''Starting: Basics'',
     GetVideoMetadata ''v2'', GetVideoMetadata ''v1'',
     WatchItem lecture_B meta_A, Log INFO ''Completed: Basics'',
     WatchItem lecture_A meta_A, Log INFO ''Completed: Intro''], Inr ()) :: unit run"
  let ?s = "for_each (watch_sequential env_ok) [lecture_A, lecture_B]"
  have f: "name lecture_A = ''Intro''" "item_id lecture_A = ''v1''"
          "name lecture_B = ''Basics''" "item_id lecture_B = ''v2''"
    by (simp_all add: lecture_A_def lecture_B_def)
  have ok: "\<forall>v \<in> set [lecture_A, lecture_B].
              onDemandLectureVideos env_ok (item_id v) = Inr ((\<lambda>v. meta_A) v)
              \<and> watcher env_ok v ((\<lambda>v. meta_A) v) = Inr ()"
    by (simp add: env_ok_def)
  have pvA: "process_video env_ok lecture_A =
               [Log INFO ''Starting: Intro'', GetVideoMetadata ''v1'',
                WatchItem lecture_A meta_A, Log INFO ''Completed: Intro'']"
    using process_video_ok [of env_ok lecture_A meta_A] by (simp add: env_ok_def f)
  have pvB: "process_video env_ok lecture_B =
               [Log INFO ''Starting: Basics'', GetVideoMetadata ''v2'',
                WatchItem lecture_B meta_A, Log INFO ''Completed: Basics'']"
    using process_video_ok [of env_ok lecture_B meta_A] by (simp add: env_ok_def f)
  have sh: "[Log INFO ''Starting: Intro'', Log INFO ''Starting: Basics'',
             GetVideoMetadata ''v2'', GetVideoMetadata ''v1'',
             WatchItem lecture_B meta_A, Log INFO ''Completed: Basics'',
             WatchItem lecture_A meta_A, Log INFO ''Completed: Intro'']
            \<in> shuffles (process_video env_ok lecture_A) (process_video env_ok lecture_B)"
    unfolding pvA pvB
    by (intro Cons_in_shuffles_leftI Cons_in_shuffles_rightI) simp
  have il: "interleavings (map (process_video env_ok) [lecture_A, lecture_B]) =
              shuffles (process_video env_ok lecture_A) (process_video env_ok lecture_B)"
    by simp
  have hd: "Log INFO (''Processing '' @ str_nat (length [lecture_A, lecture_B])
                         @ '' videos in parallel (max 30 at a time)...'') =
            Log INFO ''Processing 2 videos in parallel (max 30 at a time)...''"
    by (simp add: str_nat_digit digit_char_def)
  have p: "?p \<in> video_phase env_ok True [lecture_A, lecture_B]"
    unfolding video_phase_def il hd using sh by (simp add: image_iff)
  have s: "?s \<in> video_phase env_ok False [lecture_A, lecture_B]"
    by (simp add: video_phase_def)
  have ne: "[lecture_A, lecture_B] \<noteq> []" by simp
  show ?thesis
    using parallel_sequential_same_calls [OF ok p s ne] p s
    by (simp add: f)
qed

text \<open>
  Claim C3, as stated, fails: with one lecture and no failure, the parallel mode logs
  \<open>Completed: Intro\<close> and the sequential mode logs no such line.
\<close>

theorem parallel_logs_completed_sequential_does_not:
  "video_phase env_ok True [lecture_A] =
     {([Log INFO ''Processing 1 videos in parallel (max 30 at a time)...'',
        Log INFO ''Starting: Intro'', GetVideoMetadata ''v1'', WatchItem lecture_A meta_A,
        Log INFO ''Completed: Intro''], Inr ())}
   \<and> video_phase env_ok False [lecture_A] =
     {([Log INFO ''Intro'', GetVideoMetadata ''v1'', WatchItem lecture_A meta_A], Inr ())}
   \<and> completed_entries
        [Log INFO ''Processing 1 videos in parallel (max 30 at a time)...'',
         Log INFO ''Starting: Intro'', GetVideoMetadata ''v1'', WatchItem lecture_A meta_A,
         Log INFO ''Completed: Intro''] = [Log INFO ''Completed: Intro'']
   \<and> completed_entries [Log INFO ''Intro'', GetVideoMetadata ''v1'', WatchItem lecture_A meta_A] = []"
  by (simp add: video_phase_def process_video_def process_video_try_def watch_sequential_def
        get_video_metadata_def watch_item_def env_ok_def lecture_A_def completed_entries_def
        digit_char_def str_nat_digit)

section \<open>The assessment runner: properties\<close>
















end
